theory Spec2Isabelle
  imports Main "HOL-Library.Multiset"
begin

section \<open>JavaScript values and the built-ins the application calls\<close>

text \<open>
  Strings are lists of characters. Numbers that the application computes with are
  integers (document counters, clock readings); a JavaScript number is a double, which
  represents every integer of magnitude below \<open>2^53\<close> exactly, so on display ids of up
  to fifteen digits the integer arithmetic below is the arithmetic of the program.
  \<open>parseInt\<close> can fail to find a number; its result \<open>NaN\<close> is a value of its own.
\<close>

datatype jsnum = NaN | Num int

definition isWhiteSpace :: "char \<Rightarrow> bool" where
  "isWhiteSpace c \<longleftrightarrow> c \<in> set [CHR 0x09, CHR 0x0A, CHR 0x0B, CHR 0x0C, CHR 0x0D, CHR 0x20]"

definition isDigit :: "char \<Rightarrow> bool" where
  "isDigit c \<longleftrightarrow> c \<in> set ''0123456789''"

definition digitValue :: "char \<Rightarrow> nat" where
  "digitValue c = (of_char c :: nat) - 48"

definition digitsValue :: "string \<Rightarrow> nat" where
  "digitsValue ds = foldl (\<lambda>acc c. 10 * acc + digitValue c) 0 ds"

text \<open>
  \<open>parseInt(s, 10)\<close>: leading white space (here the ASCII white space characters) is
  skipped, one sign is accepted, then the
  longest run of decimal digits is read; whatever follows is ignored. No digit at all
  gives \<open>NaN\<close>.
\<close>

definition parseDigits :: "bool \<Rightarrow> string \<Rightarrow> jsnum" where
  "parseDigits negative s =
     (let ds = takeWhile isDigit s
      in if ds = [] then NaN
         else Num (if negative then - int (digitsValue ds) else int (digitsValue ds)))"

definition parseInt :: "string \<Rightarrow> jsnum" where
  "parseInt s =
     (case dropWhile isWhiteSpace s of
        [] \<Rightarrow> NaN
      | c # rest \<Rightarrow>
          if c = CHR ''-'' then parseDigits True rest
          else if c = CHR ''+'' then parseDigits False rest
          else parseDigits False (c # rest))"

definition digitChar :: "nat \<Rightarrow> char" where
  "digitChar d = ''0123456789'' ! (d mod 10)"

fun natToString :: "nat \<Rightarrow> string" where
  "natToString n =
     (if n < 10 then [digitChar n] else natToString (n div 10) @ [digitChar (n mod 10)])"

declare natToString.simps [simp del]

text \<open>\<open>String(n)\<close> on an integer: its decimal digits, with a minus sign when negative.\<close>

definition String :: "int \<Rightarrow> string" where
  "String n = (if n < 0 then CHR ''-'' # natToString (nat (- n)) else natToString (nat n))"

text \<open>\<open>s.padStart(n, c)\<close> with a one-character filler; a string already long enough is kept.\<close>

definition padStart :: "nat \<Rightarrow> char \<Rightarrow> string \<Rightarrow> string" where
  "padStart n c s = replicate (n - length s) c @ s"

text \<open>\<open>s.slice(k)\<close> with \<open>k \<ge> 0\<close>: the characters from position \<open>k\<close> on, empty when there are none.\<close>

definition slice :: "nat \<Rightarrow> string \<Rightarrow> string" where
  "slice k s = drop k s"





section \<open>Documents\<close>

text \<open>
  A stored document is a finite map from field names to values. The values the
  application stores are strings, \<open>null\<close> and timestamps (seconds and nanoseconds since
  the epoch, as the database client represents them).
\<close>

record timestamp =
  seconds :: int
  nanoseconds :: int

datatype fval = Str string | Null | Time timestamp

type_synonym document = "string \<rightharpoonup> fval"

text \<open>
  Reading a text field of an issue, \<open>fir.k\<close> followed by \<open>?.\<close>: the string when the field
  holds one, nothing when the field is absent or \<open>null\<close>. The data model types the fields
  read this way (displayId, roomNumber, issueTitle, description) as strings. A timestamp
  in such a field, on which the string method would not exist, is read as absent; the
  writes of the application never store one there, which is the invariant
  \<open>storeHoldsText\<close> below.
\<close>

definition textField :: "document \<Rightarrow> string \<Rightarrow> string option" where
  "textField fir k = (case fir k of Some (Str s) \<Rightarrow> Some s | _ \<Rightarrow> None)"

definition textFields :: "string list" where
  "textFields = [''displayId'', ''roomNumber'', ''issueTitle'', ''description'']"

definition holdsText :: "document \<Rightarrow> bool" where
  "holdsText d = list_all (\<lambda>k. case d k of Some (Time t) \<Rightarrow> False | _ \<Rightarrow> True) textFields"

section \<open>Display-id allocator\<close>

text \<open>
  From the subscription callback of the application:
  \<^verbatim>\<open>
  const highestId = data.reduce((max, fir) => {
      const num = parseInt(fir.displayId?.slice(4) || '0', 10);
      return num > max ? num : max;
  }, 0);
  setNextDisplayId(`FIR-${String(highestId + 1).padStart(4, "0")}`);
  \<close>
\<close>

definition displayIdSuffix :: "document \<Rightarrow> string" where
  "displayIdSuffix fir =
     (case textField fir ''displayId'' of
        None \<Rightarrow> ''0''
      | Some s \<Rightarrow> if slice 4 s = [] then ''0'' else slice 4 s)"

definition reduceStep :: "int \<Rightarrow> document \<Rightarrow> int" where
  "reduceStep mx fir =
     (case parseInt (displayIdSuffix fir) of
        NaN \<Rightarrow> mx
      | Num num \<Rightarrow> if num > mx then num else mx)"

definition highestId :: "document list \<Rightarrow> int" where
  "highestId data = foldl reduceStep 0 data"

definition calcNextDisplayId :: "document list \<Rightarrow> string" where
  "calcNextDisplayId data = ''FIR-'' @ padStart 4 (CHR ''0'') (String (highestId data + 1))"

text \<open>The state variable before any snapshot has arrived: \<^verbatim>\<open>useState("FIR-0001")\<close>.\<close>

definition initialNextDisplayId :: string where
  "initialNextDisplayId = ''FIR-0001''"

section \<open>The managed backend\<close>

text \<open>
  The document database and the object storage are services outside the program. The
  model keeps their contents (collections of documents in arrival order, stored blobs)
  and the sequence of completed service calls. What a call answers is not decided by the
  program: the readings of the clock, whether a call succeeds, the download URL of a
  stored path and the id the database assigns are collected in an environment.
  \<open>dateNow\<close> is \<^verbatim>\<open>Date.now()\<close> in milliseconds, \<open>timestampNow k\<close> the
  \<open>k\<close>-th reading of \<^verbatim>\<open>Timestamp.now()\<close> within one operation,
  \<open>serverTimestamp\<close> the time the server puts in place of its sentinel and
  \<open>localeString\<close> the rendering \<^verbatim>\<open>new Date().toLocaleString()\<close>.
\<close>

record image_file =
  name :: string
  bytes :: string

datatype effect =
    Upload string
  | DownloadURL string
  | AddDoc string string
  | UpdateDoc string string

record backend =
  collections :: "string \<Rightarrow> (string \<times> document) list"
  blobs :: "string \<rightharpoonup> image_file"
  effects :: "effect list"

text \<open>Every stored document has text in its text fields.\<close>

definition storeHoldsText :: "backend \<Rightarrow> bool" where
  "storeHoldsText b \<longleftrightarrow> (\<forall>coll. list_all (\<lambda>p. holdsText (snd p)) (collections b coll))"

record env =
  dateNow :: int
  timestampNow :: "nat \<Rightarrow> timestamp"
  serverTimestamp :: timestamp
  localeString :: string
  uploadOk :: bool
  urlOk :: bool
  writeOk :: bool
  urlOf :: "string \<Rightarrow> string"
  newDocId :: string

datatype error = NotInitialized | StorageFailure | DatabaseFailure | NotFound

definition uploadBytes :: "env \<Rightarrow> backend \<Rightarrow> string \<Rightarrow> image_file \<Rightarrow> error + backend" where
  "uploadBytes e b path f =
     (if uploadOk e
      then Inr (b\<lparr>blobs := (blobs b)(path \<mapsto> f), effects := effects b @ [Upload path]\<rparr>)
      else Inl StorageFailure)"

definition getDownloadURL :: "env \<Rightarrow> backend \<Rightarrow> string \<Rightarrow> error + string \<times> backend" where
  "getDownloadURL e b path =
     (if urlOk e
      then Inr (urlOf e path, b\<lparr>effects := effects b @ [DownloadURL path]\<rparr>)
      else Inl StorageFailure)"

definition addDoc :: "env \<Rightarrow> backend \<Rightarrow> string \<Rightarrow> document \<Rightarrow> (error + string) \<times> backend" where
  "addDoc e b coll newDoc =
     (if writeOk e
      then (Inr (newDocId e),
            b\<lparr>collections := (collections b)(coll := collections b coll @ [(newDocId e, newDoc)]),
              effects := effects b @ [AddDoc coll (newDocId e)]\<rparr>)
      else (Inl DatabaseFailure, b))"

text \<open>
  \<open>updateDoc(ref, payload)\<close> writes the fields of the payload into the document behind
  the reference and leaves its other fields alone; it fails on a document that does not
  exist. In an object literal a later entry of the same key replaces an earlier one.
\<close>

definition applyPayload :: "(string \<times> fval) list \<Rightarrow> document \<Rightarrow> document" where
  "applyPayload payload d = fold (\<lambda>(k, v) m. m(k \<mapsto> v)) payload d"

definition updateDoc ::
  "env \<Rightarrow> backend \<Rightarrow> string \<Rightarrow> string \<Rightarrow> (string \<times> fval) list \<Rightarrow> (error + unit) \<times> backend" where
  "updateDoc e b coll docId payload =
     (if \<not> writeOk e then (Inl DatabaseFailure, b)
      else if docId \<notin> fst ` set (collections b coll) then (Inl NotFound, b)
      else (Inr (),
            b\<lparr>collections := (collections b)
                (coll := map (\<lambda>(i, d). if i = docId then (i, applyPayload payload d) else (i, d))
                           (collections b coll)),
              effects := effects b @ [UpdateDoc coll docId]\<rparr>))"

section \<open>The application: module state and store client\<close>

text \<open>
  \<^verbatim>\<open>let app, auth, db, storage; let appId;\<close> The handles are set once by the
  initialisation; the store client only tests them.
\<close>

record module_state =
  db :: bool
  storage :: bool
  appId :: string

text \<open>\<open>!userId\<close>: no user, or the empty string.\<close>

definition falsy :: "string option \<Rightarrow> bool" where
  "falsy u \<longleftrightarrow> u = None \<or> u = Some []"

definition getCollectionPath :: "module_state \<Rightarrow> string \<Rightarrow> string" where
  "getCollectionPath g uid = ''artifacts/'' @ appId g @ ''/public/data/firs''"

record form_data =
  roomNumber :: string
  issueTitle :: string
  description :: string
  priority :: string
  imageFile :: "image_file option"

subsection \<open>createNewIssue\<close>

definition storagePath :: "env \<Rightarrow> string \<Rightarrow> image_file \<Rightarrow> string" where
  "storagePath e uid f = ''firs/'' @ uid @ ''/'' @ String (dateNow e) @ ''_'' @ name f"

text \<open>
  The block \<^verbatim>\<open>if (formData.imageFile) { ... }\<close>: the value of \<open>imageUrl\<close> after it,
  starting from \<open>null\<close>, and the backend as the two awaited calls leave it.
\<close>

definition uploadImage ::
  "env \<Rightarrow> backend \<Rightarrow> string \<Rightarrow> image_file option \<Rightarrow> (error + fval) \<times> backend" where
  "uploadImage e b uid file =
     (case file of
        None \<Rightarrow> (Inr Null, b)
      | Some f \<Rightarrow>
          (case uploadBytes e b (storagePath e uid f) f of
             Inl err \<Rightarrow> (Inl err, b)
           | Inr b1 \<Rightarrow>
               (case getDownloadURL e b1 (storagePath e uid f) of
                  Inl err \<Rightarrow> (Inl err, b1)
                | Inr (url, b2) \<Rightarrow> (Inr (Str url), b2))))"

definition newIssue :: "env \<Rightarrow> string \<Rightarrow> form_data \<Rightarrow> string \<Rightarrow> fval \<Rightarrow> document" where
  "newIssue e uid fd displayId imageUrl =
     [''displayId'' \<mapsto> Str displayId,
      ''roomNumber'' \<mapsto> Str (roomNumber fd),
      ''issueTitle'' \<mapsto> Str (issueTitle fd),
      ''description'' \<mapsto> Str (description fd),
      ''priority'' \<mapsto> Str (priority fd),
      ''status'' \<mapsto> Str ''Submitted'',
      ''department'' \<mapsto> Str ''Unassigned'',
      ''imageUrl'' \<mapsto> imageUrl,
      ''submittedBy'' \<mapsto> Str uid,
      ''createdAt'' \<mapsto> Time (timestampNow e 0),
      ''updatedAt'' \<mapsto> Time (timestampNow e 1)]"

definition createNewIssue ::
  "env \<Rightarrow> module_state \<Rightarrow> backend \<Rightarrow> string option \<Rightarrow> form_data \<Rightarrow> string
     \<Rightarrow> (error + string) \<times> backend" where
  "createNewIssue e g b userId fd displayId =
     (case userId of
        None \<Rightarrow> (Inl NotInitialized, b)
      | Some uid \<Rightarrow>
          if \<not> db g \<or> \<not> storage g \<or> uid = [] then (Inl NotInitialized, b)
          else
            (case uploadImage e b uid (imageFile fd) of
               (Inl err, b1) \<Rightarrow> (Inl err, b1)
             | (Inr imageUrl, b1) \<Rightarrow>
                 addDoc e b1 (getCollectionPath g uid) (newIssue e uid fd displayId imageUrl)))"

subsection \<open>updateIssueField\<close>

definition updateIssueField ::
  "env \<Rightarrow> module_state \<Rightarrow> backend \<Rightarrow> string option \<Rightarrow> string \<Rightarrow> string \<Rightarrow> fval
     \<Rightarrow> (error + unit) \<times> backend" where
  "updateIssueField e g b userId issueId field v =
     (case userId of
        None \<Rightarrow> (Inl NotInitialized, b)
      | Some uid \<Rightarrow>
          if \<not> db g \<or> uid = [] then (Inl NotInitialized, b)
          else updateDoc e b (getCollectionPath g uid) issueId
                 [(field, v), (''updatedAt'', Time (timestampNow e 0))])"

subsection \<open>subscribeToIssues\<close>

text \<open>
  A query names a collection, carries equality filters and may ask the server for an
  order. The documents of a snapshot are those of the collection that pass every filter.
\<close>

record query =
  source :: string
  wheres :: "(string \<times> fval) list"
  orderBy :: "(string \<times> string) option"

definition passes :: "(string \<times> fval) list \<Rightarrow> document \<Rightarrow> bool" where
  "passes ws d = list_all (\<lambda>(k, v). d k = Some v) ws"

definition snapshotDocs :: "backend \<Rightarrow> query \<Rightarrow> (string \<times> document) list" where
  "snapshotDocs b q = filter (\<lambda>(i, d). passes (wheres q) d) (collections b (source q))"

definition issuesQuery :: "module_state \<Rightarrow> string \<Rightarrow> string \<Rightarrow> string \<Rightarrow> query" where
  "issuesQuery g uid priorityFilter departmentFilter =
     \<lparr>source = getCollectionPath g uid,
      wheres = (if priorityFilter \<noteq> ''All'' then [(''priority'', Str priorityFilter)] else [])
             @ (if departmentFilter \<noteq> ''All'' then [(''department'', Str departmentFilter)] else []),
      orderBy = None\<rparr>"

text \<open>\<^verbatim>\<open>{ id: doc.id, ...doc.data() }\<close>: the fields of the document, and its id under \<open>id\<close>
  unless the document has a field of that name.\<close>

definition toIssue :: "string \<times> document \<Rightarrow> document" where
  "toIssue p = [''id'' \<mapsto> Str (fst p)] ++ snd p"

text \<open>
  \<open>xs.sort(cmp)\<close> with a consistent comparator: the stable sort, in which \<open>a\<close> comes
  before \<open>b\<close> when \<open>cmp(a, b) < 0\<close> and elements that compare equal keep their order.
\<close>

fun sortInsert :: "('a \<Rightarrow> 'a \<Rightarrow> int) \<Rightarrow> 'a \<Rightarrow> 'a list \<Rightarrow> 'a list" where
  "sortInsert cmp x [] = [x]"
| "sortInsert cmp x (y # ys) = (if cmp x y \<le> 0 then x # y # ys else y # sortInsert cmp x ys)"

definition sortBy :: "('a \<Rightarrow> 'a \<Rightarrow> int) \<Rightarrow> 'a list \<Rightarrow> 'a list" where
  "sortBy cmp xs = foldr (sortInsert cmp) xs []"

text \<open>\<^verbatim>\<open>x.createdAt?.seconds || 0\<close>\<close>

definition createdSeconds :: "document \<Rightarrow> int" where
  "createdSeconds fir = (case fir ''createdAt'' of Some (Time t) \<Rightarrow> seconds t | _ \<Rightarrow> 0)"

definition byCreatedDesc :: "document \<Rightarrow> document \<Rightarrow> int" where
  "byCreatedDesc a b = createdSeconds b - createdSeconds a"

definition onSnapshot :: "(string \<times> document) list \<Rightarrow> document list" where
  "onSnapshot docs = sortBy byCreatedDesc (map toIssue docs)"

text \<open>What the callback receives for the present contents of the backend; \<open>None\<close> when
  the subscription is refused and nothing is ever delivered.\<close>

definition subscribeToIssues ::
  "module_state \<Rightarrow> backend \<Rightarrow> string option \<Rightarrow> string \<Rightarrow> string \<Rightarrow> document list option" where
  "subscribeToIssues g b userId priorityFilter departmentFilter =
     (case userId of
        None \<Rightarrow> None
      | Some uid \<Rightarrow>
          if \<not> db g \<or> uid = [] then None
          else Some (onSnapshot (snapshotDocs b (issuesQuery g uid priorityFilter departmentFilter))))"

subsection \<open>The standalone store module\<close>

text \<open>
  The repository also holds a separate store module, \<^verbatim>\<open>src/firestore-api.js\<close>, which
  the application file does not import. It exports functions of the same names over the
  collection \<^verbatim>\<open>maintenance_issues\<close>; they are modelled here under the prefix \<open>api_\<close>.
\<close>

definition ISSUES_COLLECTION :: string where
  "ISSUES_COLLECTION = ''maintenance_issues''"

definition api_storagePath :: "env \<Rightarrow> image_file \<Rightarrow> string" where
  "api_storagePath e f = ''fir_images/'' @ String (dateNow e) @ ''_'' @ name f"

definition api_uploadImage ::
  "env \<Rightarrow> backend \<Rightarrow> image_file option \<Rightarrow> (error + fval) \<times> backend" where
  "api_uploadImage e b file =
     (case file of
        None \<Rightarrow> (Inr (Str []), b)
      | Some f \<Rightarrow>
          (case uploadBytes e b (api_storagePath e f) f of
             Inl err \<Rightarrow> (Inl err, b)
           | Inr b1 \<Rightarrow>
               (case getDownloadURL e b1 (api_storagePath e f) of
                  Inl err \<Rightarrow> (Inl err, b1)
                | Inr (url, b2) \<Rightarrow> (Inr (Str url), b2))))"

definition api_newIssueData :: "env \<Rightarrow> form_data \<Rightarrow> string \<Rightarrow> fval \<Rightarrow> document" where
  "api_newIssueData e fd customId imageUrl =
     [''displayId'' \<mapsto> Str customId,
      ''roomNumber'' \<mapsto> Str (roomNumber fd),
      ''issueTitle'' \<mapsto> Str (issueTitle fd),
      ''description'' \<mapsto> Str (description fd),
      ''imageUrl'' \<mapsto> imageUrl,
      ''status'' \<mapsto> Str ''Submit'',
      ''priority'' \<mapsto> Str ''Medium'',
      ''department'' \<mapsto> Str ''Select Department'',
      ''createdAt'' \<mapsto> Time (serverTimestamp e),
      ''dateTimeString'' \<mapsto> Str (localeString e)]"

definition api_createNewIssue ::
  "env \<Rightarrow> backend \<Rightarrow> form_data \<Rightarrow> string \<Rightarrow> (error + string) \<times> backend" where
  "api_createNewIssue e b fd customId =
     (case api_uploadImage e b (imageFile fd) of
        (Inl err, b1) \<Rightarrow> (Inl err, b1)
      | (Inr imageUrl, b1) \<Rightarrow>
          addDoc e b1 ISSUES_COLLECTION (api_newIssueData e fd customId imageUrl))"

definition api_updateIssueField ::
  "env \<Rightarrow> backend \<Rightarrow> string \<Rightarrow> string \<Rightarrow> fval \<Rightarrow> (error + unit) \<times> backend" where
  "api_updateIssueField e b docId field v = updateDoc e b ISSUES_COLLECTION docId [(field, v)]"

definition api_issuesQuery :: query where
  "api_issuesQuery =
     \<lparr>source = ISSUES_COLLECTION, wheres = [], orderBy = Some (''createdAt'', ''desc'')\<rparr>"

definition api_onSnapshot :: "(string \<times> document) list \<Rightarrow> document list" where
  "api_onSnapshot docs = map toIssue docs"

section \<open>The application: view logic\<close>

subsection \<open>Client-side search\<close>




subsection \<open>Submission handler\<close>

record app_state =
  userId :: "string option"
  loading :: bool
  nextDisplayId :: string
  formData :: form_data

datatype submit_outcome =
    AuthNotReady
  | MissingRequiredFields
  | Submitted
  | SubmissionFailed error

definition emptyForm :: form_data where
  "emptyForm =
     \<lparr>roomNumber = [], issueTitle = [], description = [], priority = ''Medium'', imageFile = None\<rparr>"

text \<open>
  The outcome names the branch taken: the authentication banner, the console message for
  missing fields (no banner, and the handler simply returns), the success banner with the
  form reset, or the submission-error banner. The loading flag is raised before the call
  of \<open>createNewIssue\<close> and lowered in the \<open>finally\<close> block.
\<close>

definition handleSubmit ::
  "env \<Rightarrow> module_state \<Rightarrow> app_state \<Rightarrow> backend \<Rightarrow> submit_outcome \<times> app_state \<times> backend" where
  "handleSubmit e g st b =
     (if falsy (userId st) then (AuthNotReady, st, b)
      else if roomNumber (formData st) = [] \<or> issueTitle (formData st) = []
              \<or> description (formData st) = []
      then (MissingRequiredFields, st, b)
      else
        (case createNewIssue e g b (userId st) (formData st) (nextDisplayId st) of
           (Inr docId, b1) \<Rightarrow> (Submitted, st\<lparr>loading := False, formData := emptyForm\<rparr>, b1)
         | (Inl err, b1) \<Rightarrow> (SubmissionFailed err, st\<lparr>loading := False\<rparr>, b1)))"

section \<open>The properties in the words of the specification\<close>





text \<open>The storage key \<open>{namespace}/{userId}/{timestamp}_{filename}\<close>.\<close>

definition blobKey :: "string \<Rightarrow> string \<Rightarrow> string \<Rightarrow> string \<Rightarrow> string" where
  "blobKey namespace uid stamp filename = namespace @ ''/'' @ uid @ ''/'' @ stamp @ ''_'' @ filename"





text \<open>A document changes at most in the fields \<open>ks\<close>.\<close>

definition onlyChanged :: "string set \<Rightarrow> document \<Rightarrow> document \<Rightarrow> bool" where
  "onlyChanged ks d d' \<longleftrightarrow> (\<forall>k. k \<notin> ks \<longrightarrow> d' k = d k)"

text \<open>A required field of the form is missing when it is the empty string (\<open>!s\<close>).\<close>

definition missingRequired :: "form_data \<Rightarrow> bool" where
  "missingRequired fd \<longleftrightarrow> roomNumber fd = [] \<or> issueTitle fd = [] \<or> description fd = []"

text \<open>A stored document passes the filters of a subscription: each filter is either
  \<open>All\<close> or the value of the field.\<close>

definition matchesFilters :: "string \<Rightarrow> string \<Rightarrow> string \<times> document \<Rightarrow> bool" where
  "matchesFilters pf df p \<longleftrightarrow>
     (pf = ''All'' \<or> snd p ''priority'' = Some (Str pf))
     \<and> (df = ''All'' \<or> snd p ''department'' = Some (Str df))"

section \<open>Sample data\<close>


definition env0 :: env where
  "env0 =
     \<lparr>dateNow = 1700000000123,
      timestampNow = (\<lambda>k. \<lparr>seconds = 1700000000, nanoseconds = 123000000 + int k\<rparr>),
      serverTimestamp = \<lparr>seconds = 1700000001, nanoseconds = 0\<rparr>,
      localeString = ''11/14/2023, 10:13:20 PM'',
      uploadOk = True, urlOk = True, writeOk = True,
      urlOf = (\<lambda>p. ''https://storage.example/'' @ p),
      newDocId = ''doc9''\<rparr>"

definition g0 :: module_state where
  "g0 = \<lparr>db = True, storage = True, appId = ''hotel''\<rparr>"

definition firsPath :: string where
  "firsPath = ''artifacts/hotel/public/data/firs''"

definition emptyBackend :: backend where
  "emptyBackend = \<lparr>collections = (\<lambda>c. []), blobs = Map.empty, effects = []\<rparr>"

definition form0 :: form_data where
  "form0 =
     \<lparr>roomNumber = ''Room 301'', issueTitle = ''AC is making noise'',
      description = ''Rattles at night'', priority = ''High'', imageFile = None\<rparr>"

definition photo :: image_file where
  "photo = \<lparr>name = ''ac.png'', bytes = ''PNG''\<rparr>"

definition sampleIssue :: "string \<Rightarrow> string \<Rightarrow> string \<Rightarrow> int \<Rightarrow> int \<Rightarrow> document" where
  "sampleIssue displayId prio dept secs nanos =
     [''displayId'' \<mapsto> Str displayId,
      ''roomNumber'' \<mapsto> Str ''Room 301'',
      ''issueTitle'' \<mapsto> Str ''AC is making noise'',
      ''description'' \<mapsto> Str ''Rattles at night'',
      ''priority'' \<mapsto> Str prio,
      ''status'' \<mapsto> Str ''Submitted'',
      ''department'' \<mapsto> Str dept,
      ''imageUrl'' \<mapsto> Null,
      ''submittedBy'' \<mapsto> Str ''u1'',
      ''createdAt'' \<mapsto> Time \<lparr>seconds = secs, nanoseconds = nanos\<rparr>,
      ''updatedAt'' \<mapsto> Time \<lparr>seconds = secs, nanoseconds = nanos\<rparr>]"

definition backendWith :: "(string \<times> document) list \<Rightarrow> backend" where
  "backendWith docs = emptyBackend\<lparr>collections := (\<lambda>c. if c = firsPath then docs else [])\<rparr>"

definition apiBackendWith :: "(string \<times> document) list \<Rightarrow> backend" where
  "apiBackendWith docs =
     emptyBackend\<lparr>collections := (\<lambda>c. if c = ISSUES_COLLECTION then docs else [])\<rparr>"

definition fourIssues :: "(string \<times> document) list" where
  "fourIssues =
     [(''a'', sampleIssue ''FIR-0001'' ''Low'' ''Unassigned'' 100 0),
      (''b'', sampleIssue ''FIR-0002'' ''High'' ''Plumbing'' 200 0),
      (''c'', sampleIssue ''FIR-0003'' ''Critical'' ''IT'' 300 0),
      (''d'', sampleIssue ''FIR-0004'' ''Medium'' ''Unassigned'' 400 0)]"

definition st0 :: app_state where
  "st0 = \<lparr>userId = Some ''u1'', loading = False, nextDisplayId = ''FIR-0001'',
          formData = form0\<lparr>roomNumber := []\<rparr>\<rparr>"

definition twoHigh :: "(string \<times> document) list" where
  "twoHigh =
     [(''b'', sampleIssue ''FIR-0002'' ''High'' ''Plumbing'' 200 0),
      (''c'', sampleIssue ''FIR-0003'' ''High'' ''IT'' 300 0)]"


section \<open>Verification\<close>

subsection \<open>Evaluation rules and auxiliary facts about the built-ins\<close>


lemmas allocator_defs =
  calcNextDisplayId_def highestId_def reduceStep_def displayIdSuffix_def
























subsection \<open>Claims about the allocator\<close>


text \<open>
  Claim C9. On the empty issue list the reduction yields 0 and the allocator proposes
  \<open>FIR-0001\<close>, which is also the value the state variable holds before any snapshot
  has arrived.
\<close>

theorem allocator_empty_list:
  "highestId [] = 0 \<and> calcNextDisplayId [] = ''FIR-0001'' \<and> calcNextDisplayId [] = initialNextDisplayId"
  by code_simp



subsection \<open>Client-side search\<close>










subsection \<open>Field update\<close>

lemmas store_defs =
  createNewIssue_def uploadImage_def uploadBytes_def getDownloadURL_def addDoc_def
  updateIssueField_def updateDoc_def applyPayload_def getCollectionPath_def
  api_createNewIssue_def api_uploadImage_def api_updateIssueField_def ISSUES_COLLECTION_def

lemmas sample_defs =
  env0_def g0_def emptyBackend_def form0_def photo_def firsPath_def backendWith_def
  fourIssues_def sampleIssue_def

lemma list_all2_map_same:
  "(\<And>x. x \<in> set xs \<Longrightarrow> P x (f x)) \<Longrightarrow> list_all2 P xs (map f xs)"
  by (induction xs) auto

lemma updateDoc_result:
  "updateDoc e b coll docId payload = (Inr (), b') \<Longrightarrow>
     writeOk e \<and> docId \<in> fst ` set (collections b coll)
     \<and> b' = b\<lparr>collections := (collections b)
                (coll := map (\<lambda>(i, d). if i = docId then (i, applyPayload payload d) else (i, d))
                           (collections b coll)),
              effects := effects b @ [UpdateDoc coll docId]\<rparr>"
  by (auto simp: updateDoc_def split: if_splits)

lemma updateDoc_frame:
  assumes "updateDoc e b coll docId payload = (Inr (), b')"
  shows "blobs b' = blobs b"
    and "c \<noteq> coll \<Longrightarrow> collections b' c = collections b c"
    and "list_all2 (\<lambda>p p'. fst p' = fst p
            \<and> (if fst p = docId then snd p' = applyPayload payload (snd p) else snd p' = snd p))
          (collections b coll) (collections b' coll)"
proof -
  note r = updateDoc_result [OF assms]
  from r show "blobs b' = blobs b" by simp
  from r show "c \<noteq> coll \<Longrightarrow> collections b' c = collections b c" by simp
  have "list_all2 (\<lambda>p p'. fst p' = fst p
            \<and> (if fst p = docId then snd p' = applyPayload payload (snd p) else snd p' = snd p))
          (collections b coll)
          (map (\<lambda>(i, d). if i = docId then (i, applyPayload payload d) else (i, d)) (collections b coll))"
    by (rule list_all2_map_same) (auto split: prod.splits)
  with r show "list_all2 (\<lambda>p p'. fst p' = fst p
            \<and> (if fst p = docId then snd p' = applyPayload payload (snd p) else snd p' = snd p))
          (collections b coll) (collections b' coll)" by simp
qed

lemma updateIssueField_result:
  "updateIssueField e g b (Some uid) issueId field v = (Inr (), b') \<Longrightarrow>
     updateDoc e b (getCollectionPath g uid) issueId
       [(field, v), (''updatedAt'', Time (timestampNow e 0))] = (Inr (), b')"
  by (auto simp: updateIssueField_def split: if_splits)

lemma payload_app: "applyPayload [(field, v), (''updatedAt'', t)] d = d(field \<mapsto> v, ''updatedAt'' \<mapsto> t)"
  by (simp add: applyPayload_def)

lemma payload_api: "applyPayload [(field, v)] d = d(field \<mapsto> v)"
  by (simp add: applyPayload_def)

text \<open>
  Claim C3. When \<open>updateIssueField\<close> succeeds, the stored blobs and every other
  collection are as before; the collection holds the same documents under the same ids
  in the same order; every document other than the addressed one is unchanged; and the
  addressed document differs at most in the named field and in \<open>updatedAt\<close>, the
  former now holding the new value and the latter the reading of the clock. The update
  succeeds whenever the client is initialised, the write goes through and the issue
  exists. The function of the same name in the standalone module changes the named
  field only.
\<close>

theorem update_changes_only_field_and_updatedAt:
  "(updateIssueField e g b (Some uid) issueId field v = (Inr (), b') \<longrightarrow>
      blobs b' = blobs b
      \<and> (\<forall>c. c \<noteq> getCollectionPath g uid \<longrightarrow> collections b' c = collections b c)
      \<and> list_all2 (\<lambda>p p'. fst p' = fst p
            \<and> onlyChanged {field, ''updatedAt''} (snd p) (snd p')
            \<and> (fst p \<noteq> issueId \<longrightarrow> snd p' = snd p)
            \<and> (fst p = issueId \<longrightarrow>
                 snd p' ''updatedAt'' = Some (Time (timestampNow e 0))
                 \<and> (field \<noteq> ''updatedAt'' \<longrightarrow> snd p' field = Some v)))
          (collections b (getCollectionPath g uid)) (collections b' (getCollectionPath g uid)))
   \<and> (db g \<and> uid \<noteq> [] \<and> writeOk e \<and> issueId \<in> fst ` set (collections b (getCollectionPath g uid)) \<longrightarrow>
        (\<exists>b'. updateIssueField e g b (Some uid) issueId field v = (Inr (), b')))
   \<and> (api_updateIssueField e b issueId field v = (Inr (), b2) \<longrightarrow>
      blobs b2 = blobs b
      \<and> (\<forall>c. c \<noteq> ISSUES_COLLECTION \<longrightarrow> collections b2 c = collections b c)
      \<and> list_all2 (\<lambda>p p'. fst p' = fst p
            \<and> onlyChanged {field} (snd p) (snd p')
            \<and> (fst p \<noteq> issueId \<longrightarrow> snd p' = snd p)
            \<and> (fst p = issueId \<longrightarrow> snd p' field = Some v))
          (collections b ISSUES_COLLECTION) (collections b2 ISSUES_COLLECTION))"
proof (intro conjI impI)
  assume a: "updateIssueField e g b (Some uid) issueId field v = (Inr (), b')"
  note u = updateIssueField_result [OF a]
  show "blobs b' = blobs b" by (rule updateDoc_frame(1) [OF u])
  show "\<forall>c. c \<noteq> getCollectionPath g uid \<longrightarrow> collections b' c = collections b c"
    using updateDoc_frame(2) [OF u] by blast
  show "list_all2 (\<lambda>p p'. fst p' = fst p
            \<and> onlyChanged {field, ''updatedAt''} (snd p) (snd p')
            \<and> (fst p \<noteq> issueId \<longrightarrow> snd p' = snd p)
            \<and> (fst p = issueId \<longrightarrow>
                 snd p' ''updatedAt'' = Some (Time (timestampNow e 0))
                 \<and> (field \<noteq> ''updatedAt'' \<longrightarrow> snd p' field = Some v)))
          (collections b (getCollectionPath g uid)) (collections b' (getCollectionPath g uid))"
    by (rule list_all2_mono [OF updateDoc_frame(3) [OF u]])
       (auto simp: payload_app onlyChanged_def split: if_splits)
next
  assume "db g \<and> uid \<noteq> [] \<and> writeOk e \<and> issueId \<in> fst ` set (collections b (getCollectionPath g uid))"
  then show "\<exists>b'. updateIssueField e g b (Some uid) issueId field v = (Inr (), b')"
    by (simp add: updateIssueField_def updateDoc_def)
next
  assume "api_updateIssueField e b issueId field v = (Inr (), b2)"
  then have u: "updateDoc e b ISSUES_COLLECTION issueId [(field, v)] = (Inr (), b2)"
    by (simp add: api_updateIssueField_def)
  show "blobs b2 = blobs b" by (rule updateDoc_frame(1) [OF u])
  show "\<forall>c. c \<noteq> ISSUES_COLLECTION \<longrightarrow> collections b2 c = collections b c"
    using updateDoc_frame(2) [OF u] by blast
  show "list_all2 (\<lambda>p p'. fst p' = fst p
            \<and> onlyChanged {field} (snd p) (snd p')
            \<and> (fst p \<noteq> issueId \<longrightarrow> snd p' = snd p)
            \<and> (fst p = issueId \<longrightarrow> snd p' field = Some v))
          (collections b ISSUES_COLLECTION) (collections b2 ISSUES_COLLECTION)"
    by (rule list_all2_mono [OF updateDoc_frame(3) [OF u]])
       (auto simp: payload_api onlyChanged_def split: if_splits)
qed

text \<open>The statement above for the change of \<open>status\<close> from \<open>Submitted\<close> to
  \<open>In Progress\<close> on the second of four issues, through the application and through the
  standalone module.\<close>

theorem update_changes_only_field_and_updatedAt_witness:
  "db g0 \<and> ''u1'' \<noteq> [] \<and> writeOk env0
   \<and> ''b'' \<in> fst ` set (collections (backendWith fourIssues) (getCollectionPath g0 ''u1''))
   \<and> fst (updateIssueField env0 g0 (backendWith fourIssues) (Some ''u1'') ''b'' ''status'' (Str ''In Progress''))
       = Inr ()
   \<and> map (\<lambda>p. snd p ''status'') (collections (backendWith fourIssues) firsPath)
     = [Some (Str ''Submitted''), Some (Str ''Submitted''), Some (Str ''Submitted''), Some (Str ''Submitted'')]
   \<and> map (\<lambda>p. snd p ''status'')
       (collections (snd (updateIssueField env0 g0 (backendWith fourIssues) (Some ''u1'') ''b'' ''status''
          (Str ''In Progress''))) firsPath)
     = [Some (Str ''Submitted''), Some (Str ''In Progress''), Some (Str ''Submitted''), Some (Str ''Submitted'')]
   \<and> list_all2 (\<lambda>p p'. fst p' = fst p \<and> onlyChanged {''status'', ''updatedAt''} (snd p) (snd p'))
       (collections (backendWith fourIssues) firsPath)
       (collections (snd (updateIssueField env0 g0 (backendWith fourIssues) (Some ''u1'') ''b'' ''status''
          (Str ''In Progress''))) firsPath)
   \<and> fst (api_updateIssueField env0 (apiBackendWith fourIssues) ''b'' ''status'' (Str ''In Progress''))
       = Inr ()
   \<and> list_all2 (\<lambda>p p'. fst p' = fst p \<and> onlyChanged {''status''} (snd p) (snd p'))
       (collections (apiBackendWith fourIssues) ISSUES_COLLECTION)
       (collections (snd (api_updateIssueField env0 (apiBackendWith fourIssues) ''b'' ''status''
          (Str ''In Progress''))) ISSUES_COLLECTION)"
proof -
  let ?r = "updateIssueField env0 g0 (backendWith fourIssues) (Some ''u1'') ''b'' ''status'' (Str ''In Progress'')"
  let ?a = "api_updateIssueField env0 (apiBackendWith fourIssues) ''b'' ''status'' (Str ''In Progress'')"
  have path: "getCollectionPath g0 ''u1'' = firsPath"
    by (simp add: getCollectionPath_def g0_def firsPath_def)
  have ids: "map fst (collections (backendWith fourIssues) firsPath) = [''a'', ''b'', ''c'', ''d'']"
    by (simp add: backendWith_def emptyBackend_def fourIssues_def)
  have "''b'' \<in> set (map fst (collections (backendWith fourIssues) firsPath))"
    unfolding ids by simp
  then have mem: "''b'' \<in> fst ` set (collections (backendWith fourIssues) (getCollectionPath g0 ''u1''))"
    unfolding path by simp
  have "db g0 \<and> ''u1'' \<noteq> [] \<and> writeOk env0"
    by (simp add: g0_def env0_def)
  with mem have pre: "db g0 \<and> ''u1'' \<noteq> [] \<and> writeOk env0
      \<and> ''b'' \<in> fst ` set (collections (backendWith fourIssues) (getCollectionPath g0 ''u1''))"
    by blast
  from update_changes_only_field_and_updatedAt [THEN conjunct2, THEN conjunct1, rule_format, OF pre]
  obtain b' where eq: "?r = (Inr (), b')" by blast
  then have ok: "fst ?r = Inr ()" and b': "b' = snd ?r" by simp_all
  from update_changes_only_field_and_updatedAt [THEN conjunct1, rule_format, OF eq]
  have "list_all2 (\<lambda>p p'. fst p' = fst p
            \<and> onlyChanged {''status'', ''updatedAt''} (snd p) (snd p')
            \<and> (fst p \<noteq> ''b'' \<longrightarrow> snd p' = snd p)
            \<and> (fst p = ''b'' \<longrightarrow>
                 snd p' ''updatedAt'' = Some (Time (timestampNow env0 0))
                 \<and> (''status'' \<noteq> ''updatedAt'' \<longrightarrow> snd p' ''status'' = Some (Str ''In Progress''))))
          (collections (backendWith fourIssues) firsPath) (collections (snd ?r) firsPath)"
    by (simp add: path b')
  then have frame: "list_all2 (\<lambda>p p'. fst p' = fst p \<and> onlyChanged {''status'', ''updatedAt''} (snd p) (snd p'))
       (collections (backendWith fourIssues) firsPath) (collections (snd ?r) firsPath)"
    by (rule list_all2_mono) simp
  have before: "map (\<lambda>p. snd p ''status'') (collections (backendWith fourIssues) firsPath)
     = [Some (Str ''Submitted''), Some (Str ''Submitted''), Some (Str ''Submitted''), Some (Str ''Submitted'')]"
    by (simp add: sample_defs)
  have after: "map (\<lambda>p. snd p ''status'') (collections (snd ?r) firsPath)
     = [Some (Str ''Submitted''), Some (Str ''In Progress''), Some (Str ''Submitted''), Some (Str ''Submitted'')]"
    by (simp add: store_defs sample_defs)
  have aok: "fst ?a = Inr ()"
    by (simp add: store_defs sample_defs apiBackendWith_def)
  then have aeq: "?a = (Inr (), snd ?a)"
    by (metis prod.collapse)
  from update_changes_only_field_and_updatedAt [THEN conjunct2, THEN conjunct2, rule_format, OF aeq]
  have "list_all2 (\<lambda>p p'. fst p' = fst p
            \<and> onlyChanged {''status''} (snd p) (snd p')
            \<and> (fst p \<noteq> ''b'' \<longrightarrow> snd p' = snd p)
            \<and> (fst p = ''b'' \<longrightarrow> snd p' ''status'' = Some (Str ''In Progress'')))
          (collections (apiBackendWith fourIssues) ISSUES_COLLECTION)
          (collections (snd ?a) ISSUES_COLLECTION)"
    by simp
  then have aframe: "list_all2 (\<lambda>p p'. fst p' = fst p \<and> onlyChanged {''status''} (snd p) (snd p'))
       (collections (apiBackendWith fourIssues) ISSUES_COLLECTION)
       (collections (snd ?a) ISSUES_COLLECTION)"
    by (rule list_all2_mono) simp
  from pre ok before after frame aok aframe show ?thesis by blast
qed

subsection \<open>Creation\<close>

lemma addDoc_result:
  "addDoc e b coll d = (Inr i, b') \<Longrightarrow>
     writeOk e \<and> i = newDocId e
     \<and> b' = b\<lparr>collections := (collections b)(coll := collections b coll @ [(i, d)]),
             effects := effects b @ [AddDoc coll i]\<rparr>"
  by (auto simp: addDoc_def split: if_splits)

lemma addDoc_failure: "addDoc e b coll d = (Inl err, b') \<Longrightarrow> b' = b"
  by (auto simp: addDoc_def split: if_splits)

lemma uploadImage_None: "uploadImage e b uid None = (Inr Null, b)"
  by (simp add: uploadImage_def)

lemma uploadImage_Some_result:
  "uploadImage e b uid (Some f) = (Inr url, b1) \<Longrightarrow>
     uploadOk e \<and> urlOk e \<and> url = Str (urlOf e (storagePath e uid f))
     \<and> b1 = b\<lparr>blobs := (blobs b)(storagePath e uid f \<mapsto> f),
             effects := effects b @ [Upload (storagePath e uid f), DownloadURL (storagePath e uid f)]\<rparr>"
  by (auto simp: uploadImage_def uploadBytes_def getDownloadURL_def split: if_splits)

lemma uploadImage_collections: "uploadImage e b uid file = (r, b1) \<Longrightarrow> collections b1 = collections b"
  by (auto simp: uploadImage_def uploadBytes_def getDownloadURL_def split: if_splits option.splits)

lemma api_uploadImage_None: "api_uploadImage e b None = (Inr (Str []), b)"
  by (simp add: api_uploadImage_def)

lemma api_uploadImage_Some_result:
  "api_uploadImage e b (Some f) = (Inr url, b1) \<Longrightarrow>
     uploadOk e \<and> urlOk e \<and> url = Str (urlOf e (api_storagePath e f))
     \<and> b1 = b\<lparr>blobs := (blobs b)(api_storagePath e f \<mapsto> f),
             effects := effects b @ [Upload (api_storagePath e f), DownloadURL (api_storagePath e f)]\<rparr>"
  by (auto simp: api_uploadImage_def uploadBytes_def getDownloadURL_def split: if_splits)

lemma createNewIssue_result:
  "createNewIssue e g b (Some uid) fd displayId = (Inr docId, b') \<Longrightarrow>
     db g \<and> storage g \<and> uid \<noteq> []
     \<and> (\<exists>url b1. uploadImage e b uid (imageFile fd) = (Inr url, b1)
          \<and> addDoc e b1 (getCollectionPath g uid) (newIssue e uid fd displayId url) = (Inr docId, b'))"
  by (auto simp: createNewIssue_def split: if_splits prod.splits sum.splits)

lemma api_createNewIssue_result:
  "api_createNewIssue e b fd customId = (Inr docId, b') \<Longrightarrow>
     (\<exists>url b1. api_uploadImage e b (imageFile fd) = (Inr url, b1)
          \<and> addDoc e b1 ISSUES_COLLECTION (api_newIssueData e fd customId url) = (Inr docId, b'))"
  by (auto simp: api_createNewIssue_def split: if_splits prod.splits sum.splits)

lemma newIssue_fields:
  "newIssue e uid fd displayId url ''imageUrl'' = Some url"
  "newIssue e uid fd displayId url ''status'' = Some (Str ''Submitted'')"
  "newIssue e uid fd displayId url ''department'' = Some (Str ''Unassigned'')"
  by (simp_all add: newIssue_def)

lemma api_newIssueData_fields:
  "api_newIssueData e fd customId url ''imageUrl'' = Some url"
  "api_newIssueData e fd customId url ''status'' = Some (Str ''Submit'')"
  "api_newIssueData e fd customId url ''department'' = Some (Str ''Select Department'')"
  by (simp_all add: api_newIssueData_def)

text \<open>
  Claim C1, for the application. For every submission without an image, whatever its
  other fields hold, the record persisted by \<open>createNewIssue\<close> of the application has
  \<open>imageUrl\<close> \<open>null\<close>, status \<open>Submitted\<close> and department \<open>Unassigned\<close>, and
  nothing is uploaded. The call succeeds whenever the client is initialised and the write
  goes through.
\<close>

theorem created_record_defaults:
  "(imageFile fd = None \<and> createNewIssue e g b (Some uid) fd displayId = (Inr docId, b') \<longrightarrow>
      blobs b' = blobs b
      \<and> (\<exists>d. collections b' (getCollectionPath g uid)
                = collections b (getCollectionPath g uid) @ [(docId, d)]
            \<and> d ''imageUrl'' = Some Null
            \<and> d ''status'' = Some (Str ''Submitted'')
            \<and> d ''department'' = Some (Str ''Unassigned'')))
   \<and> (imageFile fd = None \<and> db g \<and> storage g \<and> uid \<noteq> [] \<and> writeOk e \<longrightarrow>
        fst (createNewIssue e g b (Some uid) fd displayId) = Inr (newDocId e))"
proof (intro conjI impI)
  assume a: "imageFile fd = None \<and> createNewIssue e g b (Some uid) fd displayId = (Inr docId, b')"
  with createNewIssue_result [of e g b uid fd displayId docId b']
  have add: "addDoc e b (getCollectionPath g uid) (newIssue e uid fd displayId Null) = (Inr docId, b')"
    by (auto simp: uploadImage_None)
  note r = addDoc_result [OF add]
  from r show "blobs b' = blobs b" by simp
  from r have "collections b' (getCollectionPath g uid)
                = collections b (getCollectionPath g uid) @ [(docId, newIssue e uid fd displayId Null)]"
    by simp
  then show "\<exists>d. collections b' (getCollectionPath g uid)
                = collections b (getCollectionPath g uid) @ [(docId, d)]
            \<and> d ''imageUrl'' = Some Null
            \<and> d ''status'' = Some (Str ''Submitted'')
            \<and> d ''department'' = Some (Str ''Unassigned'')"
    using newIssue_fields by blast
next
  assume "imageFile fd = None \<and> db g \<and> storage g \<and> uid \<noteq> [] \<and> writeOk e"
  then show "fst (createNewIssue e g b (Some uid) fd displayId) = Inr (newDocId e)"
    by (simp add: createNewIssue_def uploadImage_None addDoc_def)
qed

text \<open>The statement above for a complete form without image on the empty backend.\<close>

theorem created_record_defaults_witness:
  "imageFile form0 = None
   \<and> roomNumber form0 \<noteq> [] \<and> issueTitle form0 \<noteq> [] \<and> description form0 \<noteq> []
   \<and> db g0 \<and> storage g0 \<and> ''u1'' \<noteq> [] \<and> writeOk env0
   \<and> fst (createNewIssue env0 g0 emptyBackend (Some ''u1'') form0 ''FIR-0001'') = Inr ''doc9''
   \<and> map (\<lambda>p. (fst p, snd p ''imageUrl'', snd p ''status'', snd p ''department''))
        (collections (snd (createNewIssue env0 g0 emptyBackend (Some ''u1'') form0 ''FIR-0001''))
           (getCollectionPath g0 ''u1''))
      = [(''doc9'', Some Null, Some (Str ''Submitted''), Some (Str ''Unassigned''))]"
proof -
  let ?r = "createNewIssue env0 g0 emptyBackend (Some ''u1'') form0 ''FIR-0001''"
  have form: "imageFile form0 = None" "roomNumber form0 \<noteq> []" "issueTitle form0 \<noteq> []"
      "description form0 \<noteq> []"
    by (simp_all add: form0_def)
  have ready: "db g0 \<and> storage g0 \<and> ''u1'' \<noteq> [] \<and> writeOk env0"
    by (simp add: g0_def env0_def)
  from created_record_defaults [THEN conjunct2, rule_format, of form0 g0 "''u1''" env0 emptyBackend "''FIR-0001''"]
    form(1) ready
  have "fst ?r = Inr (newDocId env0)" by blast
  then have ok: "fst ?r = Inr ''doc9''" by (simp add: env0_def)
  then have eq: "?r = (Inr ''doc9'', snd ?r)"
    by (metis prod.collapse)
  from created_record_defaults [THEN conjunct1, rule_format, OF conjI [OF form(1) eq]]
  obtain d where d: "collections (snd ?r) (getCollectionPath g0 ''u1'')
        = collections emptyBackend (getCollectionPath g0 ''u1'') @ [(''doc9'', d)]"
      "d ''imageUrl'' = Some Null" "d ''status'' = Some (Str ''Submitted'')"
      "d ''department'' = Some (Str ''Unassigned'')"
    by blast
  then have "map (\<lambda>p. (fst p, snd p ''imageUrl'', snd p ''status'', snd p ''department''))
        (collections (snd ?r) (getCollectionPath g0 ''u1''))
      = [(''doc9'', Some Null, Some (Str ''Submitted''), Some (Str ''Unassigned''))]"
    by (simp add: emptyBackend_def)
  with form ready ok show ?thesis by blast
qed

text \<open>
  The function of the same name in the standalone module persists, for a submission
  without image, the empty string as \<open>imageUrl\<close>, status \<open>Submit\<close> and department
  \<open>Select Department\<close>.
\<close>

lemma api_created_record_defaults:
  assumes "imageFile fd = None" and "api_createNewIssue e b fd customId = (Inr docId, b2)"
  shows "blobs b2 = blobs b"
    and "\<exists>d. collections b2 ISSUES_COLLECTION = collections b ISSUES_COLLECTION @ [(docId, d)]
            \<and> d ''imageUrl'' = Some (Str [])
            \<and> d ''status'' = Some (Str ''Submit'')
            \<and> d ''department'' = Some (Str ''Select Department'')"
proof -
  from assms api_createNewIssue_result [of e b fd customId docId b2]
  have add: "addDoc e b ISSUES_COLLECTION (api_newIssueData e fd customId (Str [])) = (Inr docId, b2)"
    by (auto simp: api_uploadImage_None)
  note r = addDoc_result [OF add]
  from r show "blobs b2 = blobs b" by simp
  from r have "collections b2 ISSUES_COLLECTION
                = collections b ISSUES_COLLECTION @ [(docId, api_newIssueData e fd customId (Str []))]"
    by simp
  then show "\<exists>d. collections b2 ISSUES_COLLECTION = collections b ISSUES_COLLECTION @ [(docId, d)]
            \<and> d ''imageUrl'' = Some (Str [])
            \<and> d ''status'' = Some (Str ''Submit'')
            \<and> d ''department'' = Some (Str ''Select Department'')"
    using api_newIssueData_fields by blast
qed

text \<open>
  A complete form without image, submitted through the standalone module: the persisted
  record carries neither status \<open>Submitted\<close> nor department \<open>Unassigned\<close>.
\<close>

theorem standalone_module_defaults_differ:
  "imageFile form0 = None
   \<and> roomNumber form0 \<noteq> [] \<and> issueTitle form0 \<noteq> [] \<and> description form0 \<noteq> []
   \<and> fst (api_createNewIssue env0 emptyBackend form0 ''FIR-0001'') = Inr ''doc9''
   \<and> map (\<lambda>p. (fst p, snd p ''imageUrl'', snd p ''status'', snd p ''department''))
        (collections (snd (api_createNewIssue env0 emptyBackend form0 ''FIR-0001'')) ISSUES_COLLECTION)
      = [(''doc9'', Some (Str []), Some (Str ''Submit''), Some (Str ''Select Department''))]
   \<and> Str ''Submit'' \<noteq> Str ''Submitted''
   \<and> Str ''Select Department'' \<noteq> Str ''Unassigned''"
  by (simp add: store_defs sample_defs api_newIssueData_def)

text \<open>
  Claim C8, for the application. For every submission with an image that
  \<open>createNewIssue\<close> of the application completes, the blob is stored under
  \<open>firs/{userId}/{timestamp}_{filename}\<close>, and the completed service calls are, in
  this order, the upload, the request of the download URL and the write of the record,
  whose \<open>imageUrl\<close> is that URL. When the upload or the URL request fails the call
  fails and no record is written; with all three services answering it succeeds.
\<close>

theorem image_uploaded_before_record:
  "(imageFile fd = Some f \<and> createNewIssue e g b (Some uid) fd displayId = (Inr docId, b') \<longrightarrow>
      storagePath e uid f = blobKey ''firs'' uid (String (dateNow e)) (name f)
      \<and> blobs b' (storagePath e uid f) = Some f
      \<and> effects b' = effects b @ [Upload (storagePath e uid f), DownloadURL (storagePath e uid f),
                                  AddDoc (getCollectionPath g uid) docId]
      \<and> (\<exists>d. collections b' (getCollectionPath g uid)
                = collections b (getCollectionPath g uid) @ [(docId, d)]
            \<and> d ''imageUrl'' = Some (Str (urlOf e (storagePath e uid f)))))
   \<and> (imageFile fd = Some f \<and> (\<not> uploadOk e \<or> \<not> urlOk e) \<longrightarrow>
        isl (fst (createNewIssue e g b (Some uid) fd displayId))
        \<and> collections (snd (createNewIssue e g b (Some uid) fd displayId)) = collections b)
   \<and> (imageFile fd = Some f \<and> db g \<and> storage g \<and> uid \<noteq> [] \<and> uploadOk e \<and> urlOk e \<and> writeOk e \<longrightarrow>
        fst (createNewIssue e g b (Some uid) fd displayId) = Inr (newDocId e))"
proof (intro conjI impI)
  assume a: "imageFile fd = Some f \<and> createNewIssue e g b (Some uid) fd displayId = (Inr docId, b')"
  with createNewIssue_result [of e g b uid fd displayId docId b']
  obtain url b1 where up: "uploadImage e b uid (Some f) = (Inr url, b1)"
    and add: "addDoc e b1 (getCollectionPath g uid) (newIssue e uid fd displayId url) = (Inr docId, b')"
    by auto
  note u = uploadImage_Some_result [OF up]
  note r = addDoc_result [OF add]
  show "storagePath e uid f = blobKey ''firs'' uid (String (dateNow e)) (name f)"
    by (simp add: storagePath_def blobKey_def)
  from u r show "blobs b' (storagePath e uid f) = Some f" by simp
  from u r show "effects b' = effects b @ [Upload (storagePath e uid f), DownloadURL (storagePath e uid f),
                                  AddDoc (getCollectionPath g uid) docId]" by simp
  from u r have "collections b' (getCollectionPath g uid)
      = collections b (getCollectionPath g uid) @ [(docId, newIssue e uid fd displayId url)]"
    by simp
  moreover have "newIssue e uid fd displayId url ''imageUrl'' = Some (Str (urlOf e (storagePath e uid f)))"
    using u by (simp add: newIssue_fields)
  ultimately show "\<exists>d. collections b' (getCollectionPath g uid)
                = collections b (getCollectionPath g uid) @ [(docId, d)]
            \<and> d ''imageUrl'' = Some (Str (urlOf e (storagePath e uid f)))"
    by blast
next
  assume a: "imageFile fd = Some f \<and> (\<not> uploadOk e \<or> \<not> urlOk e)"
  then show "isl (fst (createNewIssue e g b (Some uid) fd displayId))"
    by (auto simp: createNewIssue_def uploadImage_def uploadBytes_def getDownloadURL_def)
  from a show "collections (snd (createNewIssue e g b (Some uid) fd displayId)) = collections b"
    by (auto simp: createNewIssue_def uploadImage_def uploadBytes_def getDownloadURL_def)
next
  assume "imageFile fd = Some f \<and> db g \<and> storage g \<and> uid \<noteq> [] \<and> uploadOk e \<and> urlOk e \<and> writeOk e"
  then show "fst (createNewIssue e g b (Some uid) fd displayId) = Inr (newDocId e)"
    by (simp add: createNewIssue_def uploadImage_def uploadBytes_def getDownloadURL_def addDoc_def)
qed

lemmas string_eval = String_def natToString.simps digitChar_def

text \<open>The statement above for a form with the image \<open>ac.png\<close> on the empty backend, with
  the storage answering and with the upload failing.\<close>

theorem image_uploaded_before_record_witness:
  "imageFile (form0\<lparr>imageFile := Some photo\<rparr>) = Some photo
   \<and> db g0 \<and> storage g0 \<and> ''u1'' \<noteq> [] \<and> uploadOk env0 \<and> urlOk env0 \<and> writeOk env0
   \<and> fst (createNewIssue env0 g0 emptyBackend (Some ''u1'') (form0\<lparr>imageFile := Some photo\<rparr>) ''FIR-0001'')
       = Inr ''doc9''
   \<and> storagePath env0 ''u1'' photo = ''firs/u1/1700000000123_ac.png''
   \<and> effects (snd (createNewIssue env0 g0 emptyBackend (Some ''u1'') (form0\<lparr>imageFile := Some photo\<rparr>)
        ''FIR-0001''))
       = [Upload ''firs/u1/1700000000123_ac.png'', DownloadURL ''firs/u1/1700000000123_ac.png'',
          AddDoc firsPath ''doc9'']
   \<and> map (\<lambda>p. (fst p, snd p ''imageUrl''))
        (collections (snd (createNewIssue env0 g0 emptyBackend (Some ''u1'')
           (form0\<lparr>imageFile := Some photo\<rparr>) ''FIR-0001'')) firsPath)
       = [(''doc9'', Some (Str ''https://storage.example/firs/u1/1700000000123_ac.png''))]
   \<and> \<not> uploadOk (env0\<lparr>uploadOk := False\<rparr>)
   \<and> isl (fst (createNewIssue (env0\<lparr>uploadOk := False\<rparr>) g0 emptyBackend (Some ''u1'')
        (form0\<lparr>imageFile := Some photo\<rparr>) ''FIR-0001''))
   \<and> collections (snd (createNewIssue (env0\<lparr>uploadOk := False\<rparr>) g0 emptyBackend (Some ''u1'')
        (form0\<lparr>imageFile := Some photo\<rparr>) ''FIR-0001'')) firsPath = []"
proof -
  let ?fd = "form0\<lparr>imageFile := Some photo\<rparr>"
  let ?r = "createNewIssue env0 g0 emptyBackend (Some ''u1'') ?fd ''FIR-0001''"
  let ?down = "env0\<lparr>uploadOk := False\<rparr>"
  let ?f = "createNewIssue ?down g0 emptyBackend (Some ''u1'') ?fd ''FIR-0001''"
  have img: "imageFile ?fd = Some photo" by simp
  have ready: "db g0 \<and> storage g0 \<and> ''u1'' \<noteq> [] \<and> uploadOk env0 \<and> urlOk env0 \<and> writeOk env0"
    by (simp add: g0_def env0_def)
  from image_uploaded_before_record [THEN conjunct2, THEN conjunct2, rule_format,
      of ?fd photo g0 "''u1''" env0 emptyBackend "''FIR-0001''"] img ready
  have "fst ?r = Inr (newDocId env0)" by blast
  then have ok: "fst ?r = Inr ''doc9''" by (simp add: env0_def)
  then have eq: "?r = (Inr ''doc9'', snd ?r)"
    by (metis prod.collapse)
  have path: "storagePath env0 ''u1'' photo = ''firs/u1/1700000000123_ac.png''"
    by (simp add: storagePath_def env0_def photo_def string_eval)
  have coll: "getCollectionPath g0 ''u1'' = firsPath"
    by (simp add: getCollectionPath_def g0_def firsPath_def)
  note t = image_uploaded_before_record [THEN conjunct1, rule_format, OF conjI [OF img eq]]
  from t have eff: "effects (snd ?r)
       = [Upload ''firs/u1/1700000000123_ac.png'', DownloadURL ''firs/u1/1700000000123_ac.png'',
          AddDoc firsPath ''doc9'']"
    by (simp add: path coll emptyBackend_def)
  from t obtain d where "collections (snd ?r) firsPath = collections emptyBackend firsPath @ [(''doc9'', d)]"
      "d ''imageUrl'' = Some (Str (urlOf env0 ''firs/u1/1700000000123_ac.png''))"
    unfolding path coll by blast
  then have rec: "map (\<lambda>p. (fst p, snd p ''imageUrl'')) (collections (snd ?r) firsPath)
       = [(''doc9'', Some (Str ''https://storage.example/firs/u1/1700000000123_ac.png''))]"
    by (simp add: emptyBackend_def env0_def)
  have down: "\<not> uploadOk ?down" by simp
  then have "imageFile ?fd = Some photo \<and> (\<not> uploadOk ?down \<or> \<not> urlOk ?down)"
    using img by blast
  from image_uploaded_before_record [THEN conjunct2, THEN conjunct1, rule_format, OF this]
  have "isl (fst ?f)" "collections (snd ?f) = collections emptyBackend"
    by blast+
  then have fail: "isl (fst ?f)" "collections (snd ?f) firsPath = []"
    by (simp_all add: emptyBackend_def)
  from img ready ok path eff rec down fail show ?thesis by blast
qed

text \<open>
  The function of the same name in the standalone module proceeds in the same order but
  stores the blob under \<open>fir_images/{timestamp}_{filename}\<close>, a key without user id.
\<close>

lemma api_image_uploaded_before_record:
  assumes "imageFile fd = Some f" and "api_createNewIssue e b fd customId = (Inr docId, b2)"
  shows "api_storagePath e f = ''fir_images/'' @ String (dateNow e) @ ''_'' @ name f"
    and "blobs b2 (api_storagePath e f) = Some f"
    and "effects b2 = effects b @ [Upload (api_storagePath e f), DownloadURL (api_storagePath e f),
                                  AddDoc ISSUES_COLLECTION docId]"
    and "\<exists>d. collections b2 ISSUES_COLLECTION = collections b ISSUES_COLLECTION @ [(docId, d)]
            \<and> d ''imageUrl'' = Some (Str (urlOf e (api_storagePath e f)))"
proof -
  from assms api_createNewIssue_result [of e b fd customId docId b2]
  obtain url b1 where up: "api_uploadImage e b (Some f) = (Inr url, b1)"
    and add: "addDoc e b1 ISSUES_COLLECTION (api_newIssueData e fd customId url) = (Inr docId, b2)"
    by auto
  note u = api_uploadImage_Some_result [OF up]
  note r = addDoc_result [OF add]
  show "api_storagePath e f = ''fir_images/'' @ String (dateNow e) @ ''_'' @ name f"
    by (simp add: api_storagePath_def)
  from u r show "blobs b2 (api_storagePath e f) = Some f" by simp
  from u r show "effects b2 = effects b @ [Upload (api_storagePath e f), DownloadURL (api_storagePath e f),
                                  AddDoc ISSUES_COLLECTION docId]" by simp
  from u r have "collections b2 ISSUES_COLLECTION
      = collections b ISSUES_COLLECTION @ [(docId, api_newIssueData e fd customId url)]"
    by simp
  moreover have "api_newIssueData e fd customId url ''imageUrl'' = Some (Str (urlOf e (api_storagePath e f)))"
    using u by (simp add: api_newIssueData_fields)
  ultimately show "\<exists>d. collections b2 ISSUES_COLLECTION = collections b ISSUES_COLLECTION @ [(docId, d)]
            \<and> d ''imageUrl'' = Some (Str (urlOf e (api_storagePath e f)))"
    by blast
qed

text \<open>
  A form with an image submitted through the standalone module: the blob key has a single
  separator, where a key of the form \<open>{namespace}/{userId}/{timestamp}_{filename}\<close>
  has two.
\<close>

theorem standalone_module_blob_key_has_no_user:
  "imageFile (form0\<lparr>imageFile := Some photo\<rparr>) = Some photo
   \<and> effects (snd (api_createNewIssue env0 emptyBackend (form0\<lparr>imageFile := Some photo\<rparr>) ''FIR-0001''))
       = [Upload ''fir_images/1700000000123_ac.png'', DownloadURL ''fir_images/1700000000123_ac.png'',
          AddDoc ''maintenance_issues'' ''doc9'']
   \<and> count_list ''fir_images/1700000000123_ac.png'' (CHR ''/'') = 1
   \<and> count_list (blobKey ''fir_images'' ''u1'' ''1700000000123'' ''ac.png'') (CHR ''/'') = 2"
  by (simp add: store_defs sample_defs api_storagePath_def string_eval blobKey_def)

subsection \<open>Text fields hold text\<close>

text \<open>
  Every document that \<open>createNewIssue\<close> writes has strings in its text fields, and an
  update of any field to a string, which is what the table editors send, keeps it so.
\<close>

lemma holdsText_newIssue: "holdsText (newIssue e uid fd displayId url)"
  by (simp add: holdsText_def textFields_def newIssue_def)

lemma holdsText_api_newIssueData: "holdsText (api_newIssueData e fd customId url)"
  by (simp add: holdsText_def textFields_def api_newIssueData_def)

lemma holdsText_update:
  "holdsText d \<Longrightarrow> holdsText (d(k \<mapsto> Str s))"
  "holdsText d \<Longrightarrow> k \<notin> set textFields \<Longrightarrow> holdsText (d(k \<mapsto> v))"
  by (auto simp: holdsText_def textFields_def)

lemma addDoc_holdsText:
  "addDoc e b coll d = (r, b') \<Longrightarrow> holdsText d \<Longrightarrow> storeHoldsText b \<Longrightarrow> storeHoldsText b'"
  by (auto simp: addDoc_def storeHoldsText_def split: if_splits)

lemma uploadImage_holdsText:
  "uploadImage e b uid file = (r, b1) \<Longrightarrow> storeHoldsText b \<Longrightarrow> storeHoldsText b1"
  by (simp add: storeHoldsText_def uploadImage_collections)

lemma createNewIssue_holdsText:
  assumes "createNewIssue e g b u fd displayId = (r, b')" and "storeHoldsText b"
  shows "storeHoldsText b'"
proof (cases u)
  case None
  with assms show ?thesis by (simp add: createNewIssue_def)
next
  case (Some uid)
  show ?thesis
  proof (cases "\<not> db g \<or> \<not> storage g \<or> uid = []")
    case True
    with assms Some show ?thesis by (auto simp: createNewIssue_def)
  next
    case False
    obtain ur b1 where up: "uploadImage e b uid (imageFile fd) = (ur, b1)"
      by (cases "uploadImage e b uid (imageFile fd)")
    then have b1: "storeHoldsText b1" using assms(2) by (rule uploadImage_holdsText)
    show ?thesis
    proof (cases ur)
      case (Inl err)
      with assms(1) Some False up b1 show ?thesis by (simp add: createNewIssue_def)
    next
      case (Inr url)
      with assms(1) Some False up
      have "addDoc e b1 (getCollectionPath g uid) (newIssue e uid fd displayId url) = (r, b')"
        by (simp add: createNewIssue_def)
      then show ?thesis using holdsText_newIssue b1 by (rule addDoc_holdsText)
    qed
  qed
qed

lemma updateDoc_holdsText:
  assumes "updateDoc e b coll docId payload = (r, b')" and "storeHoldsText b"
    and "\<And>d. holdsText d \<Longrightarrow> holdsText (applyPayload payload d)"
  shows "storeHoldsText b'"
proof (cases "writeOk e \<and> docId \<in> fst ` set (collections b coll)")
  case False
  with assms(1) have "b' = b" by (auto simp: updateDoc_def split: if_splits)
  with assms(2) show ?thesis by simp
next
  case True
  with assms(1) have b': "collections b' = (collections b)
      (coll := map (\<lambda>(i, d). if i = docId then (i, applyPayload payload d) else (i, d))
                 (collections b coll))"
    by (auto simp: updateDoc_def)
  have "list_all (\<lambda>p. holdsText (snd p))
      (map (\<lambda>(i, d). if i = docId then (i, applyPayload payload d) else (i, d)) (collections b coll))"
    using assms(2,3) by (fastforce simp: storeHoldsText_def list_all_iff)
  with assms(2) show ?thesis by (simp add: storeHoldsText_def b')
qed

lemma updateIssueField_holdsText:
  assumes "updateIssueField e g b u issueId field (Str s) = (r, b')" and "storeHoldsText b"
  shows "storeHoldsText b'"
proof (cases u)
  case None
  with assms show ?thesis by (simp add: updateIssueField_def)
next
  case (Some uid)
  show ?thesis
  proof (cases "\<not> db g \<or> uid = []")
    case True
    with assms Some show ?thesis by (auto simp: updateIssueField_def)
  next
    case False
    with assms(1) Some
    have "updateDoc e b (getCollectionPath g uid) issueId
            [(field, Str s), (''updatedAt'', Time (timestampNow e 0))] = (r, b')"
      by (simp add: updateIssueField_def)
    then show ?thesis using assms(2)
    proof (rule updateDoc_holdsText)
      fix d assume "holdsText d"
      then show "holdsText (applyPayload [(field, Str s), (''updatedAt'', Time (timestampNow e 0))] d)"
        by (simp add: payload_app holdsText_update textFields_def)
    qed
  qed
qed

lemma storeHoldsText_empty: "storeHoldsText emptyBackend"
  by (simp add: storeHoldsText_def emptyBackend_def)

lemma textField_None_iff:
  "holdsText d \<Longrightarrow> k \<in> set textFields \<Longrightarrow>
     textField d k = None \<longleftrightarrow> d k = None \<or> d k = Some Null"
  by (auto simp: holdsText_def textField_def list_all_iff split: option.splits fval.splits)

subsection \<open>Validation of required fields\<close>

text \<open>
  Claim C6, as the code divides the work. The check of the required fields is made by the
  submission handler. With a required field missing the handler leaves the form state
  and the backend as they are (nothing is uploaded or written); for an authenticated user
  it takes the branch that logs the missing fields and returns. \<open>createNewIssue\<close>
  itself makes no such check: called on an initialised client it succeeds and persists
  the record whatever the fields hold.
\<close>

theorem validation_blocks_in_handler:
  "(missingRequired (formData st) \<longrightarrow>
      fst (snd (handleSubmit e g st b)) = st \<and> snd (snd (handleSubmit e g st b)) = b)
   \<and> (missingRequired (formData st) \<and> \<not> falsy (userId st) \<longrightarrow>
        handleSubmit e g st b = (MissingRequiredFields, st, b))
   \<and> (db g \<and> storage g \<and> uid \<noteq> [] \<and> writeOk e \<and> imageFile fd = None \<longrightarrow>
        fst (createNewIssue e g b (Some uid) fd displayId) = Inr (newDocId e)
        \<and> collections (snd (createNewIssue e g b (Some uid) fd displayId)) (getCollectionPath g uid)
            = collections b (getCollectionPath g uid) @ [(newDocId e, newIssue e uid fd displayId Null)])"
proof (intro conjI impI)
  assume "missingRequired (formData st)"
  then show "fst (snd (handleSubmit e g st b)) = st" "snd (snd (handleSubmit e g st b)) = b"
    by (simp_all add: handleSubmit_def missingRequired_def)
next
  assume "missingRequired (formData st) \<and> \<not> falsy (userId st)"
  then show "handleSubmit e g st b = (MissingRequiredFields, st, b)"
    by (simp add: handleSubmit_def missingRequired_def)
next
  assume a: "db g \<and> storage g \<and> uid \<noteq> [] \<and> writeOk e \<and> imageFile fd = None"
  then show "fst (createNewIssue e g b (Some uid) fd displayId) = Inr (newDocId e)"
    by (simp add: createNewIssue_def uploadImage_None addDoc_def)
  from a show "collections (snd (createNewIssue e g b (Some uid) fd displayId)) (getCollectionPath g uid)
            = collections b (getCollectionPath g uid) @ [(newDocId e, newIssue e uid fd displayId Null)]"
    by (simp add: createNewIssue_def uploadImage_None addDoc_def)
qed

text \<open>The statement above for an authenticated user and a form without room number.\<close>

theorem validation_blocks_in_handler_witness:
  "missingRequired (formData st0) \<and> \<not> falsy (userId st0)
   \<and> fst (snd (handleSubmit env0 g0 st0 emptyBackend)) = st0
   \<and> snd (snd (handleSubmit env0 g0 st0 emptyBackend)) = emptyBackend
   \<and> handleSubmit env0 g0 st0 emptyBackend = (MissingRequiredFields, st0, emptyBackend)
   \<and> db g0 \<and> storage g0 \<and> writeOk env0 \<and> imageFile (formData st0) = None
   \<and> fst (createNewIssue env0 g0 emptyBackend (Some ''u1'') (formData st0) ''FIR-0001'') = Inr (newDocId env0)"
proof -
  have h: "missingRequired (formData st0)" "\<not> falsy (userId st0)"
    by (simp_all add: st0_def form0_def missingRequired_def falsy_def)
  have c: "db g0 \<and> storage g0 \<and> ''u1'' \<noteq> [] \<and> writeOk env0 \<and> imageFile (formData st0) = None"
    by (simp add: st0_def form0_def g0_def env0_def)
  note t = validation_blocks_in_handler [of st0 env0 g0 emptyBackend "''u1''" "formData st0" "''FIR-0001''"]
  from t h(1) have 0: "fst (snd (handleSubmit env0 g0 st0 emptyBackend)) = st0"
      "snd (snd (handleSubmit env0 g0 st0 emptyBackend)) = emptyBackend"
    by blast+
  from t h have 1: "handleSubmit env0 g0 st0 emptyBackend = (MissingRequiredFields, st0, emptyBackend)"
    by blast
  from t c have 2: "fst (createNewIssue env0 g0 emptyBackend (Some ''u1'') (formData st0) ''FIR-0001'')
      = Inr (newDocId env0)"
    by blast
  from h c 0 1 2 show ?thesis by blast
qed

text \<open>
  \<open>createNewIssue\<close> called with an empty room number does not fail: it persists a
  record whose room number is the empty string.
\<close>

theorem createNewIssue_accepts_missing_field:
  "roomNumber (form0\<lparr>roomNumber := []\<rparr>) = []
   \<and> fst (createNewIssue env0 g0 emptyBackend (Some ''u1'') (form0\<lparr>roomNumber := []\<rparr>) ''FIR-0001'')
       = Inr ''doc9''
   \<and> map (\<lambda>p. (fst p, snd p ''roomNumber''))
        (collections (snd (createNewIssue env0 g0 emptyBackend (Some ''u1'') (form0\<lparr>roomNumber := []\<rparr>)
           ''FIR-0001'')) firsPath)
       = [(''doc9'', Some (Str []))]"
  by (simp add: store_defs sample_defs newIssue_def)

subsection \<open>Order of the delivered list\<close>

lemmas subscribe_defs =
  subscribeToIssues_def onSnapshot_def snapshotDocs_def issuesQuery_def passes_def toIssue_def
  sortBy_def byCreatedDesc_def createdSeconds_def getCollectionPath_def map_add_def

lemma mset_sortInsert: "mset (sortInsert cmp x ys) = add_mset x (mset ys)"
  by (induction ys) auto

lemma mset_sortBy: "mset (sortBy cmp xs) = mset xs"
  by (induction xs) (auto simp: sortBy_def mset_sortInsert)


lemma sortBy_Cons: "sortBy cmp (x # xs) = sortInsert cmp x (sortBy cmp xs)"
  by (simp add: sortBy_def)



lemma stable_sortInsert:
  "filter (\<lambda>a. createdSeconds a = s) (sortInsert byCreatedDesc x ys)
     = filter (\<lambda>a. createdSeconds a = s) (x # ys)"
proof (induction ys)
  case Nil
  then show ?case by simp
next
  case (Cons y ys)
  show ?case
  proof (cases "byCreatedDesc x y \<le> 0")
    case True
    then show ?thesis by simp
  next
    case False
    then have "createdSeconds x \<noteq> createdSeconds y" by (simp add: byCreatedDesc_def)
    with False Cons.IH show ?thesis by auto
  qed
qed

lemma stable_sortBy:
  "filter (\<lambda>a. createdSeconds a = s) (sortBy byCreatedDesc xs) = filter (\<lambda>a. createdSeconds a = s) xs"
  by (induction xs) (simp_all add: sortBy_Cons stable_sortInsert, simp add: sortBy_def)

lemma subscribeToIssues_Some:
  "subscribeToIssues g b (Some uid) pf df = Some firs \<Longrightarrow>
     firs = onSnapshot (snapshotDocs b (issuesQuery g uid pf df))"
  by (auto simp: subscribeToIssues_def split: if_splits)

text \<open>Issues of the same second keep the order they have in the snapshot.\<close>

lemma onSnapshot_stable:
  "filter (\<lambda>a. createdSeconds a = s) (onSnapshot docs)
     = filter (\<lambda>a. createdSeconds a = s) (map toIssue docs)"
  by (simp only: onSnapshot_def stable_sortBy)

text \<open>The standalone module asks the server for the order and delivers the snapshot as
  received.\<close>

lemma api_order_is_the_servers:
  "orderBy api_issuesQuery = Some (''createdAt'', ''desc'')"
  "api_onSnapshot docs = map toIssue docs"
  by (simp_all add: api_issuesQuery_def api_onSnapshot_def)




subsection \<open>Equality filters\<close>

lemma snapshotDocs_issuesQuery:
  "snapshotDocs b (issuesQuery g uid pf df)
     = filter (matchesFilters pf df) (collections b (getCollectionPath g uid))"
  by (auto simp: snapshotDocs_def issuesQuery_def passes_def matchesFilters_def intro!: filter_cong)

text \<open>
  Claim C7, with both filters. For every subscription with a priority filter other than
  \<open>All\<close>, the delivered list holds exactly the stored issues whose priority equals the
  filter value and, when a department filter is set as well, whose department equals
  that filter; with the department filter \<open>All\<close> these are exactly the issues of that
  priority. A subscription of an initialised client with a user always delivers. Of
  issues with the priorities Low, High, Critical and Medium the filter \<open>High\<close>
  delivers exactly the one of priority High.
\<close>

theorem priority_filter_delivers_matching_issues:
  "(subscribeToIssues g b (Some uid) pf df = Some firs \<and> pf \<noteq> ''All'' \<longrightarrow>
      mset firs = mset (map toIssue
        (filter (\<lambda>p. snd p ''priority'' = Some (Str pf)
                      \<and> (df = ''All'' \<or> snd p ''department'' = Some (Str df)))
           (collections b (getCollectionPath g uid)))))
   \<and> (subscribeToIssues g b (Some uid) pf ''All'' = Some firs' \<and> pf \<noteq> ''All'' \<longrightarrow>
      set firs' = toIssue ` {p \<in> set (collections b (getCollectionPath g uid)).
                              snd p ''priority'' = Some (Str pf)}
      \<and> (\<forall>fir \<in> set firs'. fir ''priority'' = Some (Str pf)))
   \<and> (db g \<and> uid \<noteq> [] \<longrightarrow> subscribeToIssues g b (Some uid) pf df \<noteq> None)
   \<and> map (\<lambda>p. snd p ''priority'') fourIssues
       = [Some (Str ''Low''), Some (Str ''High''), Some (Str ''Critical''), Some (Str ''Medium'')]
   \<and> map_option (map (\<lambda>fir. (fir ''id'', fir ''priority'')))
       (subscribeToIssues g0 (backendWith fourIssues) (Some ''u1'') ''High'' ''All'')
       = Some [(Some (Str ''b''), Some (Str ''High''))]"
proof (intro conjI impI)
  assume a: "subscribeToIssues g b (Some uid) pf df = Some firs \<and> pf \<noteq> ''All''"
  then have "firs = onSnapshot (filter (matchesFilters pf df) (collections b (getCollectionPath g uid)))"
    using subscribeToIssues_Some [of g b uid pf df firs] by (simp add: snapshotDocs_issuesQuery)
  moreover have "filter (matchesFilters pf df) (collections b (getCollectionPath g uid))
      = filter (\<lambda>p. snd p ''priority'' = Some (Str pf)
                      \<and> (df = ''All'' \<or> snd p ''department'' = Some (Str df)))
           (collections b (getCollectionPath g uid))"
    using a by (intro filter_cong) (auto simp: matchesFilters_def)
  ultimately show "mset firs = mset (map toIssue
        (filter (\<lambda>p. snd p ''priority'' = Some (Str pf)
                      \<and> (df = ''All'' \<or> snd p ''department'' = Some (Str df)))
           (collections b (getCollectionPath g uid))))"
    by (simp only: onSnapshot_def mset_sortBy)
next
  assume a: "subscribeToIssues g b (Some uid) pf ''All'' = Some firs' \<and> pf \<noteq> ''All''"
  then have f: "firs' = onSnapshot (filter (matchesFilters pf ''All'') (collections b (getCollectionPath g uid)))"
    using subscribeToIssues_Some [of g b uid pf "''All''" firs'] by (simp add: snapshotDocs_issuesQuery)
  have "set firs' = set (map toIssue (filter (matchesFilters pf ''All'') (collections b (getCollectionPath g uid))))"
    unfolding f onSnapshot_def by (metis mset_sortBy set_mset_mset)
  then show s: "set firs' = toIssue ` {p \<in> set (collections b (getCollectionPath g uid)).
                              snd p ''priority'' = Some (Str pf)}"
    using a by (simp add: matchesFilters_def)
  show "\<forall>fir \<in> set firs'. fir ''priority'' = Some (Str pf)"
    unfolding s by (auto simp: toIssue_def map_add_def)
next
  assume "db g \<and> uid \<noteq> []"
  then show "subscribeToIssues g b (Some uid) pf df \<noteq> None"
    by (simp add: subscribeToIssues_def)
next
  show "map (\<lambda>p. snd p ''priority'') fourIssues
       = [Some (Str ''Low''), Some (Str ''High''), Some (Str ''Critical''), Some (Str ''Medium'')]"
    by (simp add: sample_defs)
  show "map_option (map (\<lambda>fir. (fir ''id'', fir ''priority'')))
       (subscribeToIssues g0 (backendWith fourIssues) (Some ''u1'') ''High'' ''All'')
       = Some [(Some (Str ''b''), Some (Str ''High''))]"
    by (simp add: subscribe_defs sample_defs)
qed

text \<open>The statement above with both filters set on two issues, and with the priority
  filter alone on four.\<close>

theorem priority_filter_delivers_matching_issues_witness:
  "subscribeToIssues g0 (backendWith twoHigh) (Some ''u1'') ''High'' ''IT''
     = Some (onSnapshot (snapshotDocs (backendWith twoHigh) (issuesQuery g0 ''u1'' ''High'' ''IT'')))
   \<and> ''High'' \<noteq> ''All''
   \<and> size (mset (onSnapshot (snapshotDocs (backendWith twoHigh) (issuesQuery g0 ''u1'' ''High'' ''IT'')))) = 1
   \<and> subscribeToIssues g0 (backendWith fourIssues) (Some ''u1'') ''High'' ''All''
     = Some (onSnapshot (snapshotDocs (backendWith fourIssues) (issuesQuery g0 ''u1'' ''High'' ''All'')))
   \<and> set (onSnapshot (snapshotDocs (backendWith fourIssues) (issuesQuery g0 ''u1'' ''High'' ''All'')))
     = {toIssue (''b'', sampleIssue ''FIR-0002'' ''High'' ''Plumbing'' 200 0)}
   \<and> db g0 \<and> ''u1'' \<noteq> []
   \<and> subscribeToIssues g0 (backendWith twoHigh) (Some ''u1'') ''High'' ''IT'' \<noteq> None"
proof -
  let ?two = "onSnapshot (snapshotDocs (backendWith twoHigh) (issuesQuery g0 ''u1'' ''High'' ''IT''))"
  let ?four = "onSnapshot (snapshotDocs (backendWith fourIssues) (issuesQuery g0 ''u1'' ''High'' ''All''))"
  have s2: "subscribeToIssues g0 (backendWith twoHigh) (Some ''u1'') ''High'' ''IT'' = Some ?two"
    by (simp add: subscribeToIssues_def g0_def)
  have s4: "subscribeToIssues g0 (backendWith fourIssues) (Some ''u1'') ''High'' ''All'' = Some ?four"
    by (simp add: subscribeToIssues_def g0_def)
  have ne: "''High'' \<noteq> ''All''" by simp
  have ready: "db g0 \<and> ''u1'' \<noteq> []" by (simp add: g0_def)
  have path: "getCollectionPath g0 ''u1'' = firsPath"
    by (simp add: getCollectionPath_def g0_def firsPath_def)
  note t = priority_filter_delivers_matching_issues
      [of g0 "backendWith twoHigh" "''u1''" "''High''" "''IT''" ?two]
  note t' = priority_filter_delivers_matching_issues
      [of g0 "backendWith fourIssues" "''u1''" "''High''" "''All''" ?four ?four]
  from t s2 ne have "mset ?two = mset (map toIssue
        (filter (\<lambda>p. snd p ''priority'' = Some (Str ''High'')
                      \<and> (''IT'' = ''All'' \<or> snd p ''department'' = Some (Str ''IT'')))
           (collections (backendWith twoHigh) (getCollectionPath g0 ''u1''))))"
    by blast
  then have 1: "size (mset ?two) = 1"
    by (simp add: path backendWith_def emptyBackend_def twoHigh_def sampleIssue_def)
  from t' s4 ne have "set ?four = toIssue ` {p \<in> set (collections (backendWith fourIssues) (getCollectionPath g0 ''u1'')).
                              snd p ''priority'' = Some (Str ''High'')}"
    by blast
  also have "{p \<in> set (collections (backendWith fourIssues) (getCollectionPath g0 ''u1'')).
                              snd p ''priority'' = Some (Str ''High'')}
      = {(''b'', sampleIssue ''FIR-0002'' ''High'' ''Plumbing'' 200 0)}"
    by (auto simp: path backendWith_def emptyBackend_def fourIssues_def sampleIssue_def)
  finally have 2: "set ?four = {toIssue (''b'', sampleIssue ''FIR-0002'' ''High'' ''Plumbing'' 200 0)}"
    by simp
  from t ready have 3: "subscribeToIssues g0 (backendWith twoHigh) (Some ''u1'') ''High'' ''IT'' \<noteq> None"
    by blast
  from s2 s4 ne 1 2 ready 3 show ?thesis by blast
qed

text \<open>
  Of two stored issues of priority High, the subscription with priority filter \<open>High\<close>
  and department filter \<open>IT\<close> delivers only one.
\<close>

theorem department_filter_narrows_priority_filter:
  "map (\<lambda>p. (fst p, snd p ''priority'', snd p ''department'')) twoHigh
     = [(''b'', Some (Str ''High''), Some (Str ''Plumbing'')), (''c'', Some (Str ''High''), Some (Str ''IT''))]
   \<and> map_option (map (\<lambda>fir. (fir ''id'', fir ''priority'', fir ''department'')))
       (subscribeToIssues g0 (backendWith twoHigh) (Some ''u1'') ''High'' ''IT'')
       = Some [(Some (Str ''c''), Some (Str ''High''), Some (Str ''IT''))]"
  by (simp add: subscribe_defs sample_defs twoHigh_def)

end
